theory Spec2Isabelle
  imports Main "HOL-Library.Multiset" "HOL-Library.Sublist"
begin

section \<open>Toolkit values: points, colours and device-context calls\<close>

text \<open>
  A \<open>wxPoint\<close> is a pair of integer coordinates. The program never computes with the
  coordinates, it only stores and forwards them.
\<close>

record wxPoint =
  px :: int
  py :: int

text \<open>
  A \<open>wxColor\<close> holds three channels of type \<open>unsigned char\<close>; the alpha channel is
  opaque throughout the program and is left out. The three-argument constructor narrows
  each argument to \<open>unsigned char\<close>.
\<close>

record wxColor =
  red :: nat
  green :: nat
  blue :: nat

definition wxColor_rgb :: "nat \<Rightarrow> nat \<Rightarrow> nat \<Rightarrow> wxColor" where
  "wxColor_rgb r g b = \<lparr>red = r mod 256, green = g mod 256, blue = b mod 256\<rparr>"

definition wxBLACK :: wxColor where
  "wxBLACK = \<lparr>red = 0, green = 0, blue = 0\<rparr>"

definition wxWHITE :: wxColor where
  "wxWHITE = \<lparr>red = 255, green = 255, blue = 255\<rparr>"

text \<open>
  The calls a shape issues on the device context \<open>wxDC\<close>, recorded in the order they
  are made. \<open>SetPen c w\<close> stands for \<open>dc.SetPen(wxPen(c, w))\<close>, \<open>SetBrush c\<close> for
  \<open>dc.SetBrush(wxBrush(c))\<close>, \<open>DrawRectangle p w h\<close> for
  \<open>dc.DrawRectangle(p, wxSize(w, h))\<close> and \<open>DrawLines n ps\<close> for
  \<open>dc.DrawLines(n, ps)\<close>, where \<open>ps\<close> is the content of the array passed and \<open>n\<close>
  the count passed (the vector's size, taken to fit the \<open>int\<close> parameter).
\<close>

datatype dc_call =
    SetBrush wxColor
  | SetPen wxColor int
  | DrawCircle wxPoint int
  | DrawRectangle wxPoint int int
  | DrawLines nat "wxPoint list"

text \<open>
  The drawing primitives of the toolkit, as opposed to pen and brush selection.
\<close>

fun is_draw_primitive :: "dc_call \<Rightarrow> bool" where
  "is_draw_primitive (SetBrush c) = False"
| "is_draw_primitive (SetPen c w) = False"
| "is_draw_primitive (DrawCircle p r) = True"
| "is_draw_primitive (DrawRectangle p w h) = True"
| "is_draw_primitive (DrawLines n ps) = True"

fun is_DrawCircle :: "dc_call \<Rightarrow> bool" where
  "is_DrawCircle (DrawCircle p r) = True"
| "is_DrawCircle other = False"

text \<open>
  What \<open>wxDC::DrawLines(n, points)\<close> puts on the surface, by the toolkit's
  documentation: a line from each of the first \<open>n\<close> points to the next one.
\<close>

fun segments_drawn :: "dc_call \<Rightarrow> (wxPoint \<times> wxPoint) list" where
  "segments_drawn (DrawLines n ps) = zip (take n ps) (tl (take n ps))"
| "segments_drawn other = []"

section \<open>Shapes\<close>

record Circle =
  circle_center :: wxPoint
  circle_radius :: int
  circle_color :: wxColor

record Square =
  square_topLeft :: wxPoint
  square_sideLength :: int
  square_color :: wxColor

record FreehandLine =
  line_points :: "wxPoint list"
  line_color :: wxColor
  line_rainbowMode :: bool

text \<open>The constructors, with their member initialisers.\<close>

definition Circle_new :: "wxPoint \<Rightarrow> int \<Rightarrow> wxColor \<Rightarrow> Circle" where
  "Circle_new center radius color =
     \<lparr>circle_center = center, circle_radius = radius, circle_color = color\<rparr>"

definition Square_new :: "wxPoint \<Rightarrow> int \<Rightarrow> wxColor \<Rightarrow> Square" where
  "Square_new topLeft sideLength color =
     \<lparr>square_topLeft = topLeft, square_sideLength = sideLength, square_color = color\<rparr>"

definition FreehandLine_new :: "wxColor \<Rightarrow> bool \<Rightarrow> FreehandLine" where
  "FreehandLine_new color rainbow =
     \<lparr>line_points = [], line_color = color, line_rainbowMode = rainbow\<rparr>"

definition Circle_Draw :: "Circle \<Rightarrow> dc_call list" where
  "Circle_Draw s = [SetBrush (circle_color s), DrawCircle (circle_center s) (circle_radius s)]"

definition Square_Draw :: "Square \<Rightarrow> dc_call list" where
  "Square_Draw s =
     [SetBrush (square_color s),
      DrawRectangle (square_topLeft s) (square_sideLength s) (square_sideLength s)]"

definition AddPoint :: "FreehandLine \<Rightarrow> wxPoint \<Rightarrow> FreehandLine" where
  "AddPoint l point = l\<lparr>line_points := line_points l @ [point]\<rparr>"

definition FreehandLine_Draw :: "FreehandLine \<Rightarrow> dc_call list" where
  "FreehandLine_Draw l =
     SetPen (line_color l) 2 #
     (if length (line_points l) > 1
      then [DrawLines (length (line_points l)) (line_points l)]
      else [])"

text \<open>
  \<open>rand()\<close> belongs to the C library; it is a parameter \<open>rnd\<close> here, a step function
  on the generator's state that returns the number drawn (never negative) and the next
  state. The three calls in \<open>wxColor(rand() % 256, rand() % 256, rand() % 256)\<close> are
  arguments of one call, and C++ leaves the order in which arguments are evaluated to the
  compiler: \<open>arg_order\<close> names the six orders, \<open>Ord_201\<close> meaning that the third
  argument is evaluated first, then the first, then the second.
\<close>

datatype arg_order = Ord_012 | Ord_021 | Ord_102 | Ord_120 | Ord_201 | Ord_210

definition rand3 :: "('r \<Rightarrow> nat \<times> 'r) \<Rightarrow> 'r \<Rightarrow> (nat \<times> nat \<times> nat) \<times> 'r" where
  "rand3 rnd g =
     (let (v1, g1) = rnd g; (v2, g2) = rnd g1; (v3, g3) = rnd g2
      in ((v1, v2, v3), g3))"

fun assign_args :: "arg_order \<Rightarrow> nat \<times> nat \<times> nat \<Rightarrow> nat \<times> nat \<times> nat" where
  "assign_args Ord_012 (v1, v2, v3) = (v1, v2, v3)"
| "assign_args Ord_021 (v1, v2, v3) = (v1, v3, v2)"
| "assign_args Ord_102 (v1, v2, v3) = (v2, v1, v3)"
| "assign_args Ord_120 (v1, v2, v3) = (v3, v1, v2)"
| "assign_args Ord_201 (v1, v2, v3) = (v2, v3, v1)"
| "assign_args Ord_210 (v1, v2, v3) = (v3, v2, v1)"

definition UpdateRainbowColor ::
  "('r \<Rightarrow> nat \<times> 'r) \<Rightarrow> arg_order \<Rightarrow> FreehandLine \<Rightarrow> 'r \<Rightarrow> FreehandLine \<times> 'r" where
  "UpdateRainbowColor rnd ord l g =
     (if line_rainbowMode l
      then (let (vs, g') = rand3 rnd g; (a0, a1, a2) = assign_args ord vs
            in (l\<lparr>line_color := wxColor_rgb (a0 mod 256) (a1 mod 256) (a2 mod 256)\<rparr>, g'))
      else (l, g))"

text \<open>The class hierarchy under \<open>Shape\<close>, and the virtual call \<open>shape->Draw(dc)\<close>.\<close>

datatype Shape = CircleShape Circle | SquareShape Square | LineShape FreehandLine

fun Shape_Draw :: "Shape \<Rightarrow> dc_call list" where
  "Shape_Draw (CircleShape s) = Circle_Draw s"
| "Shape_Draw (SquareShape s) = Square_Draw s"
| "Shape_Draw (LineShape l) = FreehandLine_Draw l"

section \<open>The canvas\<close>

text \<open>
  The members of \<open>PaintCanvas\<close>. A null pointer is \<open>None\<close>. The vector of shape
  pointers is a list of shapes: a pointer is stored in \<open>shapes\<close> in the same handler
  that clears the slot it came from, so no shape is reachable through two members when a
  handler returns. \<open>refreshRequests\<close> counts the calls of \<open>Refresh()\<close>, the canvas's
  only effect on the toolkit besides painting.
\<close>

record PaintCanvas =
  shapes :: "Shape list"
  currentLine :: "FreehandLine option"
  currentCircle :: "Circle option"
  currentSquare :: "Square option"
  currentColor :: wxColor
  rainbowMode :: bool
  eraserMode :: bool
  circleMode :: bool
  squareMode :: bool
  shapeSize :: int
  refreshRequests :: nat

definition Refresh :: "PaintCanvas \<Rightarrow> PaintCanvas" where
  "Refresh c = c\<lparr>refreshRequests := refreshRequests c + 1\<rparr>"

text \<open>The constructor: the default member initialisers, then \<open>currentColor = *wxBLACK\<close>.\<close>

definition PaintCanvas_new :: PaintCanvas where
  "PaintCanvas_new =
     \<lparr>shapes = [], currentLine = None, currentCircle = None, currentSquare = None,
      currentColor = wxBLACK, rainbowMode = False, eraserMode = False,
      circleMode = False, squareMode = False, shapeSize = 50, refreshRequests = 0\<rparr>"

definition OnPaint :: "PaintCanvas \<Rightarrow> dc_call list" where
  "OnPaint c =
     concat (map Shape_Draw (shapes c)) @
     (case currentLine c of None \<Rightarrow> [] | Some l \<Rightarrow> FreehandLine_Draw l) @
     (case currentCircle c of None \<Rightarrow> [] | Some s \<Rightarrow> Circle_Draw s) @
     (case currentSquare c of None \<Rightarrow> [] | Some s \<Rightarrow> Square_Draw s)"

text \<open>
  \<open>OnLeftDown\<close>: the four branches of the mode test, then the statements after it,
  which every branch reaches: the point is added to \<open>currentLine\<close> if that is not
  null, and \<open>Refresh()\<close> is called (a second time for the stamp branches). A stamp
  branch assigns the new shape to its slot, pushes it onto \<open>shapes\<close> and clears the
  slot. A freehand branch overwrites \<open>currentLine\<close>, whatever it held.
\<close>

definition OnLeftDown :: "wxPoint \<Rightarrow> PaintCanvas \<Rightarrow> PaintCanvas" where
  "OnLeftDown pos c =
     (let c1 =
        (if circleMode c then
           Refresh (c\<lparr>shapes := shapes c @ [CircleShape (Circle_new pos (shapeSize c) (currentColor c))],
                      currentCircle := None\<rparr>)
         else if squareMode c then
           Refresh (c\<lparr>shapes := shapes c @ [SquareShape (Square_new pos (shapeSize c) (currentColor c))],
                      currentSquare := None\<rparr>)
         else if eraserMode c then
           c\<lparr>currentLine := Some (FreehandLine_new wxWHITE False)\<rparr>
         else
           c\<lparr>currentLine := Some (FreehandLine_new (currentColor c) (rainbowMode c))\<rparr>);
          c2 = (case currentLine c1 of
                  None \<Rightarrow> c1
                | Some l \<Rightarrow> c1\<lparr>currentLine := Some (AddPoint l pos)\<rparr>)
      in Refresh c2)"

text \<open>
  \<open>OnLeftUp\<close> calls \<open>Refresh()\<close> whether or not a line was in progress;
  \<open>OnMouseMove\<close> calls it only when one is. \<open>OnMouseMove\<close> is the one handler that
  may draw from the generator, so it takes and returns the generator's state.
\<close>

definition OnLeftUp :: "wxPoint \<Rightarrow> PaintCanvas \<Rightarrow> PaintCanvas" where
  "OnLeftUp pos c =
     Refresh
       (case currentLine c of
          None \<Rightarrow> c
        | Some l \<Rightarrow> c\<lparr>shapes := shapes c @ [LineShape (AddPoint l pos)], currentLine := None\<rparr>)"

definition OnMouseMove ::
  "('r \<Rightarrow> nat \<times> 'r) \<Rightarrow> arg_order \<Rightarrow> wxPoint \<Rightarrow> PaintCanvas \<times> 'r \<Rightarrow> PaintCanvas \<times> 'r" where
  "OnMouseMove rnd ord pos cg =
     (let (c, g) = cg in
      case currentLine c of
        None \<Rightarrow> (c, g)
      | Some l \<Rightarrow>
          (let (l1, g1) = (if rainbowMode c then UpdateRainbowColor rnd ord l g else (l, g))
           in (Refresh (c\<lparr>currentLine := Some (AddPoint l1 pos)\<rparr>), g1)))"

definition SetColor :: "wxColor \<Rightarrow> PaintCanvas \<Rightarrow> PaintCanvas" where
  "SetColor color c =
     c\<lparr>currentColor := color, eraserMode := False, rainbowMode := False,
       circleMode := False, squareMode := False\<rparr>"

definition EnableRainbowMode :: "PaintCanvas \<Rightarrow> PaintCanvas" where
  "EnableRainbowMode c = c\<lparr>rainbowMode := True, circleMode := False, squareMode := False\<rparr>"

definition EnableEraserMode :: "PaintCanvas \<Rightarrow> PaintCanvas" where
  "EnableEraserMode c = c\<lparr>eraserMode := True, circleMode := False, squareMode := False\<rparr>"

definition EnableCircleMode :: "PaintCanvas \<Rightarrow> PaintCanvas" where
  "EnableCircleMode c =
     c\<lparr>circleMode := True, eraserMode := False, rainbowMode := False, squareMode := False\<rparr>"

definition EnableSquareMode :: "PaintCanvas \<Rightarrow> PaintCanvas" where
  "EnableSquareMode c =
     c\<lparr>squareMode := True, eraserMode := False, rainbowMode := False, circleMode := False\<rparr>"

section \<open>Event sequences\<close>

text \<open>
  The events the application shell delivers to the canvas: the three pointer events bound
  in the constructor and the calls made by the menu handlers.
\<close>

datatype canvas_event =
    LeftDown wxPoint
  | LeftUp wxPoint
  | Motion wxPoint
  | CallSetColor wxColor
  | CallEnableRainbowMode
  | CallEnableEraserMode
  | CallEnableCircleMode
  | CallEnableSquareMode

fun dispatch ::
  "('r \<Rightarrow> nat \<times> 'r) \<Rightarrow> arg_order \<Rightarrow> canvas_event \<Rightarrow> PaintCanvas \<times> 'r \<Rightarrow> PaintCanvas \<times> 'r" where
  "dispatch rnd ord (LeftDown pos) (c, g) = (OnLeftDown pos c, g)"
| "dispatch rnd ord (LeftUp pos) (c, g) = (OnLeftUp pos c, g)"
| "dispatch rnd ord (Motion pos) (c, g) = OnMouseMove rnd ord pos (c, g)"
| "dispatch rnd ord (CallSetColor color) (c, g) = (SetColor color c, g)"
| "dispatch rnd ord CallEnableRainbowMode (c, g) = (EnableRainbowMode c, g)"
| "dispatch rnd ord CallEnableEraserMode (c, g) = (EnableEraserMode c, g)"
| "dispatch rnd ord CallEnableCircleMode (c, g) = (EnableCircleMode c, g)"
| "dispatch rnd ord CallEnableSquareMode (c, g) = (EnableSquareMode c, g)"

definition run_events ::
  "('r \<Rightarrow> nat \<times> 'r) \<Rightarrow> arg_order \<Rightarrow> canvas_event list \<Rightarrow> PaintCanvas \<times> 'r \<Rightarrow> PaintCanvas \<times> 'r" where
  "run_events rnd ord es cg = fold (dispatch rnd ord) es cg"

text \<open>
  A gesture: pointer-down at \<open>p\<close>, a pointer-move at each position of \<open>ms\<close>,
  pointer-up at \<open>q\<close>.
\<close>

definition gesture :: "wxPoint \<Rightarrow> wxPoint list \<Rightarrow> wxPoint \<Rightarrow> canvas_event list" where
  "gesture p ms q = LeftDown p # map Motion ms @ [LeftUp q]"

text \<open>
  The pointer-button events, and the positions of the pointer-moves of an event sequence.
\<close>

fun is_button :: "canvas_event \<Rightarrow> bool" where
  "is_button (LeftDown pos) = True"
| "is_button (LeftUp pos) = True"
| "is_button other = False"

fun motion_positions :: "canvas_event list \<Rightarrow> wxPoint list" where
  "motion_positions [] = []"
| "motion_positions (Motion pos # es) = pos # motion_positions es"
| "motion_positions (other # es) = motion_positions es"

text \<open>A generator for the examples: it counts up from its state.\<close>

definition count_rnd :: "nat \<Rightarrow> nat \<times> nat" where
  "count_rnd g = (g, g + 1)"

section \<open>Unfolding the handlers\<close>

lemmas canvas_defs = OnLeftDown_def OnLeftUp_def OnMouseMove_def SetColor_def
  EnableRainbowMode_def EnableEraserMode_def EnableCircleMode_def EnableSquareMode_def
  Refresh_def

section \<open>The fresh canvas\<close>

text \<open>
  C10. A freshly constructed canvas has all four mode flags false, current colour black,
  stamp size 50, an empty document and an empty in-progress slot; the first pointer-down
  on it begins a black freehand stroke (a line that is not a rainbow line, holding the
  pointer position as its only point) and leaves the document empty.
\<close>

theorem fresh_canvas_black_freehand:
  "\<not> rainbowMode PaintCanvas_new \<and> \<not> eraserMode PaintCanvas_new \<and>
   \<not> circleMode PaintCanvas_new \<and> \<not> squareMode PaintCanvas_new \<and>
   currentColor PaintCanvas_new = \<lparr>red = 0, green = 0, blue = 0\<rparr> \<and>
   shapeSize PaintCanvas_new = 50 \<and>
   shapes PaintCanvas_new = [] \<and>
   currentLine PaintCanvas_new = None \<and>
   currentCircle PaintCanvas_new = None \<and>
   currentSquare PaintCanvas_new = None \<and>
   currentLine (OnLeftDown pos PaintCanvas_new) =
     Some \<lparr>line_points = [pos], line_color = \<lparr>red = 0, green = 0, blue = 0\<rparr>,
           line_rainbowMode = False\<rparr> \<and>
   shapes (OnLeftDown pos PaintCanvas_new) = []"
  by (simp add: PaintCanvas_new_def OnLeftDown_def wxBLACK_def FreehandLine_new_def
      AddPoint_def Refresh_def)

section \<open>Mode flags\<close>

text \<open>
  \<open>SetColor\<close>, \<open>EnableCircleMode\<close> and \<open>EnableSquareMode\<close> clear every flag but their
  own. \<open>EnableRainbowMode\<close> and \<open>EnableEraserMode\<close> clear the two stamp flags only:
  the eraser flag survives the first and the rainbow flag the second.
\<close>

lemma exclusive_after_SetColor:
  "\<not> rainbowMode (SetColor col c) \<and> \<not> eraserMode (SetColor col c) \<and>
   \<not> circleMode (SetColor col c) \<and> \<not> squareMode (SetColor col c) \<and>
   currentColor (SetColor col c) = col"
  by (simp add: SetColor_def)

lemma exclusive_after_EnableCircleMode:
  "circleMode (EnableCircleMode c) \<and> \<not> rainbowMode (EnableCircleMode c) \<and>
   \<not> eraserMode (EnableCircleMode c) \<and> \<not> squareMode (EnableCircleMode c)"
  by (simp add: EnableCircleMode_def)

lemma exclusive_after_EnableSquareMode:
  "squareMode (EnableSquareMode c) \<and> \<not> rainbowMode (EnableSquareMode c) \<and>
   \<not> eraserMode (EnableSquareMode c) \<and> \<not> circleMode (EnableSquareMode c)"
  by (simp add: EnableSquareMode_def)

lemma flags_after_EnableRainbowMode:
  "rainbowMode (EnableRainbowMode c) \<and> eraserMode (EnableRainbowMode c) = eraserMode c \<and>
   \<not> circleMode (EnableRainbowMode c) \<and> \<not> squareMode (EnableRainbowMode c)"
  by (simp add: EnableRainbowMode_def)

lemma flags_after_EnableEraserMode:
  "eraserMode (EnableEraserMode c) \<and> rainbowMode (EnableEraserMode c) = rainbowMode c \<and>
   \<not> circleMode (EnableEraserMode c) \<and> \<not> squareMode (EnableEraserMode c)"
  by (simp add: EnableEraserMode_def)

text \<open>
  C1. The claim is that every mode-setting operation leaves at most its own flag set, and
  that after \<open>EnableEraserMode\<close> the rainbow, circle and square flags are all false. The
  code does otherwise: on a fresh canvas, \<open>EnableRainbowMode\<close> followed by
  \<open>EnableEraserMode\<close> leaves the rainbow flag set, and \<open>EnableEraserMode\<close> followed by
  \<open>EnableRainbowMode\<close> leaves the eraser flag set, so that the next pointer-down still
  starts a white eraser stroke that is not a rainbow line.
\<close>

theorem eraser_and_rainbow_flags_coexist:
  "rainbowMode (EnableEraserMode (EnableRainbowMode PaintCanvas_new)) \<and>
   eraserMode (EnableEraserMode (EnableRainbowMode PaintCanvas_new)) \<and>
   eraserMode (EnableRainbowMode (EnableEraserMode PaintCanvas_new)) \<and>
   rainbowMode (EnableRainbowMode (EnableEraserMode PaintCanvas_new)) \<and>
   currentLine (OnLeftDown pos (EnableRainbowMode (EnableEraserMode PaintCanvas_new))) =
     Some \<lparr>line_points = [pos], line_color = \<lparr>red = 255, green = 255, blue = 255\<rparr>,
           line_rainbowMode = False\<rparr>"
  by (simp add: canvas_defs PaintCanvas_new_def FreehandLine_new_def AddPoint_def wxWHITE_def)

section \<open>Freehand lines\<close>

text \<open>
  C3. \<open>Draw\<close> on a line of \<open>N \<ge> 2\<close> points selects the pen and issues one
  \<open>DrawLines\<close> call over all the points, which draws \<open>N - 1\<close> segments, the \<open>i\<close>-th
  from point \<open>i\<close> to point \<open>i + 1\<close>; on a line of 0 or 1 points it issues no drawing
  primitive. \<open>AddPoint\<close> puts its argument at the end of the point sequence and leaves
  the earlier points, the colour and the rainbow flag as they were.
\<close>

theorem FreehandLine_polyline:
  "(2 \<le> length (line_points l) \<longrightarrow>
      FreehandLine_Draw l =
        [SetPen (line_color l) 2, DrawLines (length (line_points l)) (line_points l)] \<and>
      length (concat (map segments_drawn (FreehandLine_Draw l))) = length (line_points l) - 1 \<and>
      (\<forall>i < length (line_points l) - 1.
         concat (map segments_drawn (FreehandLine_Draw l)) ! i =
           (line_points l ! i, line_points l ! (i + 1)))) \<and>
   (length (line_points l) \<le> 1 \<longrightarrow> filter is_draw_primitive (FreehandLine_Draw l) = []) \<and>
   AddPoint l p = l\<lparr>line_points := line_points l @ [p]\<rparr> \<and>
   (\<forall>i < length (line_points l). line_points (AddPoint l p) ! i = line_points l ! i) \<and>
   last (line_points (AddPoint l p)) = p \<and>
   length (line_points (AddPoint l p)) = length (line_points l) + 1"
  by (auto simp add: FreehandLine_Draw_def AddPoint_def nth_tl nth_append)

text \<open>A line of three points draws two segments; a line of one point draws nothing.\<close>

theorem FreehandLine_polyline_witness:
  "FreehandLine_Draw
     \<lparr>line_points = [\<lparr>px = 0, py = 0\<rparr>, \<lparr>px = 3, py = 4\<rparr>, \<lparr>px = 6, py = 0\<rparr>],
      line_color = wxBLACK, line_rainbowMode = False\<rparr> =
     [SetPen wxBLACK 2,
      DrawLines 3 [\<lparr>px = 0, py = 0\<rparr>, \<lparr>px = 3, py = 4\<rparr>, \<lparr>px = 6, py = 0\<rparr>]] \<and>
   filter is_draw_primitive
     (FreehandLine_Draw
        \<lparr>line_points = [\<lparr>px = 0, py = 0\<rparr>], line_color = wxBLACK, line_rainbowMode = False\<rparr>) = []"
  using
    FreehandLine_polyline [where l = "\<lparr>line_points = [\<lparr>px = 0, py = 0\<rparr>, \<lparr>px = 3, py = 4\<rparr>,
        \<lparr>px = 6, py = 0\<rparr>], line_color = wxBLACK, line_rainbowMode = False\<rparr>"
      and p = "\<lparr>px = 0, py = 0\<rparr>"]
    FreehandLine_polyline [where l = "\<lparr>line_points = [\<lparr>px = 0, py = 0\<rparr>],
        line_color = wxBLACK, line_rainbowMode = False\<rparr>" and p = "\<lparr>px = 0, py = 0\<rparr>"]
  by simp

text \<open>
  C5. When the line's rainbow flag is set, \<open>UpdateRainbowColor\<close> draws three numbers
  from the generator and stores them, each reduced modulo 256, as the line's colour: which
  draw lands in which channel follows the order of argument evaluation (red, green, blue
  from the first, second, third draw when arguments are evaluated left to right, the
  reverse when right to left); the points and the flag stay as they were. When the flag
  is not set the line and the generator are returned unchanged.
\<close>

theorem UpdateRainbowColor_iff_flag:
  "(line_rainbowMode l \<longrightarrow>
      (let (v1, g1) = rnd g; (v2, g2) = rnd g1; (v3, g3) = rnd g2;
           (l', g') = UpdateRainbowColor rnd ord l g
       in mset [red (line_color l'), green (line_color l'), blue (line_color l')] =
            mset [v1 mod 256, v2 mod 256, v3 mod 256] \<and>
          (ord = Ord_012 \<longrightarrow>
             line_color l' = \<lparr>red = v1 mod 256, green = v2 mod 256, blue = v3 mod 256\<rparr>) \<and>
          (ord = Ord_210 \<longrightarrow>
             line_color l' = \<lparr>red = v3 mod 256, green = v2 mod 256, blue = v1 mod 256\<rparr>) \<and>
          l' = l\<lparr>line_color := line_color l'\<rparr> \<and>
          g' = g3)) \<and>
   (\<not> line_rainbowMode l \<longrightarrow> UpdateRainbowColor rnd ord l g = (l, g))"
  by (cases ord)
     (simp_all add: UpdateRainbowColor_def rand3_def wxColor_rgb_def Let_def split: prod.splits)

text \<open>
  With the counting generator at 300 a rainbow line turns to the colour (44, 45, 46)
  under left-to-right evaluation and to (46, 45, 44) under right-to-left evaluation; a
  line whose flag is not set keeps its colour and draws no number.
\<close>

theorem UpdateRainbowColor_iff_flag_witness:
  "line_color (fst (UpdateRainbowColor count_rnd Ord_012
      \<lparr>line_points = [], line_color = wxBLACK, line_rainbowMode = True\<rparr> 300)) =
     \<lparr>red = 44, green = 45, blue = 46\<rparr> \<and>
   line_color (fst (UpdateRainbowColor count_rnd Ord_210
      \<lparr>line_points = [], line_color = wxBLACK, line_rainbowMode = True\<rparr> 300)) =
     \<lparr>red = 46, green = 45, blue = 44\<rparr> \<and>
   UpdateRainbowColor count_rnd Ord_012
      \<lparr>line_points = [], line_color = wxBLACK, line_rainbowMode = False\<rparr> 300 =
     (\<lparr>line_points = [], line_color = wxBLACK, line_rainbowMode = False\<rparr>, 300)"
  using
    UpdateRainbowColor_iff_flag [where rnd = count_rnd and ord = Ord_012 and g = 300
      and l = "\<lparr>line_points = [], line_color = wxBLACK, line_rainbowMode = True\<rparr>"]
    UpdateRainbowColor_iff_flag [where rnd = count_rnd and ord = Ord_210 and g = 300
      and l = "\<lparr>line_points = [], line_color = wxBLACK, line_rainbowMode = True\<rparr>"]
    UpdateRainbowColor_iff_flag [where rnd = count_rnd and ord = Ord_012 and g = 300
      and l = "\<lparr>line_points = [], line_color = wxBLACK, line_rainbowMode = False\<rparr>"]
  by (simp add: count_rnd_def case_prod_beta)

section \<open>Pointer-down\<close>

text \<open>
  C4. Pointer-down in circle mode appends one circle to the end of the document, centred
  at the pointer position, with radius \<open>shapeSize\<close> and the current colour; its render
  selects the brush and issues exactly one \<open>DrawCircle\<close> call, with that centre and
  radius. In square mode (circle mode off) it appends one square of side \<open>shapeSize\<close>
  at the pointer position in the current colour. When the in-progress slot is empty
  before the event it is empty after it (the canvas remains idle), and with all three
  slots empty nothing changes but the document and the count of redraw requests.
\<close>

theorem stamp_on_pointer_down:
  "(circleMode c \<longrightarrow>
      shapes (OnLeftDown pos c) =
        shapes c @ [CircleShape \<lparr>circle_center = pos, circle_radius = shapeSize c,
                                  circle_color = currentColor c\<rparr>] \<and>
      Shape_Draw (last (shapes (OnLeftDown pos c))) =
        [SetBrush (currentColor c), DrawCircle pos (shapeSize c)] \<and>
      filter is_DrawCircle (Shape_Draw (last (shapes (OnLeftDown pos c)))) =
        [DrawCircle pos (shapeSize c)]) \<and>
   (\<not> circleMode c \<and> squareMode c \<longrightarrow>
      shapes (OnLeftDown pos c) =
        shapes c @ [SquareShape \<lparr>square_topLeft = pos, square_sideLength = shapeSize c,
                                  square_color = currentColor c\<rparr>] \<and>
      Shape_Draw (last (shapes (OnLeftDown pos c))) =
        [SetBrush (currentColor c), DrawRectangle pos (shapeSize c) (shapeSize c)]) \<and>
   ((circleMode c \<or> squareMode c) \<and> currentLine c = None \<longrightarrow>
      currentLine (OnLeftDown pos c) = None) \<and>
   ((circleMode c \<or> squareMode c) \<and>
    currentLine c = None \<and> currentCircle c = None \<and> currentSquare c = None \<longrightarrow>
      OnLeftDown pos c =
        c\<lparr>shapes := shapes (OnLeftDown pos c), refreshRequests := refreshRequests c + 2\<rparr>)"
  by (simp add: OnLeftDown_def Refresh_def Let_def Circle_new_def Square_new_def
      Circle_Draw_def Square_Draw_def split: option.splits)

text \<open>On a fresh canvas switched to circle mode, and to square mode, with stamp size 50.\<close>

theorem stamp_on_pointer_down_witness:
  "shapes (OnLeftDown \<lparr>px = 7, py = 9\<rparr> (EnableCircleMode PaintCanvas_new)) =
     [CircleShape \<lparr>circle_center = \<lparr>px = 7, py = 9\<rparr>, circle_radius = 50,
                   circle_color = wxBLACK\<rparr>] \<and>
   filter is_DrawCircle
     (Shape_Draw (last (shapes (OnLeftDown \<lparr>px = 7, py = 9\<rparr> (EnableCircleMode PaintCanvas_new))))) =
     [DrawCircle \<lparr>px = 7, py = 9\<rparr> 50] \<and>
   currentLine (OnLeftDown \<lparr>px = 7, py = 9\<rparr> (EnableCircleMode PaintCanvas_new)) = None \<and>
   shapes (OnLeftDown \<lparr>px = 7, py = 9\<rparr> (EnableSquareMode PaintCanvas_new)) =
     [SquareShape \<lparr>square_topLeft = \<lparr>px = 7, py = 9\<rparr>, square_sideLength = 50,
                   square_color = wxBLACK\<rparr>] \<and>
   currentLine (OnLeftDown \<lparr>px = 7, py = 9\<rparr> (EnableSquareMode PaintCanvas_new)) = None"
  using
    stamp_on_pointer_down [where c = "EnableCircleMode PaintCanvas_new" and pos = "\<lparr>px = 7, py = 9\<rparr>"]
    stamp_on_pointer_down [where c = "EnableSquareMode PaintCanvas_new" and pos = "\<lparr>px = 7, py = 9\<rparr>"]
  by (simp add: EnableCircleMode_def EnableSquareMode_def PaintCanvas_new_def Circle_Draw_def)

text \<open>
  C8. Pointer-down with neither stamp flag set puts a new line into the in-progress
  slot: its colour is white when the eraser flag is set and the current colour
  otherwise, its rainbow flag is the canvas's rainbow flag unless the eraser flag is set,
  and the pointer position is its only point. The document is not modified.
\<close>

theorem freehand_pointer_down:
  "\<not> circleMode c \<and> \<not> squareMode c \<longrightarrow>
     currentLine (OnLeftDown pos c) =
       Some \<lparr>line_points = [pos],
             line_color = (if eraserMode c then \<lparr>red = 255, green = 255, blue = 255\<rparr>
                           else currentColor c),
             line_rainbowMode = (\<not> eraserMode c \<and> rainbowMode c)\<rparr> \<and>
     shapes (OnLeftDown pos c) = shapes c"
  by (simp add: OnLeftDown_def Refresh_def Let_def FreehandLine_new_def AddPoint_def wxWHITE_def)


text \<open>An eraser stroke, a red stroke and a rainbow stroke begun on a fresh canvas.\<close>

theorem freehand_pointer_down_witness:
  "currentLine (OnLeftDown \<lparr>px = 7, py = 9\<rparr> (EnableEraserMode (SetColor \<lparr>red = 255, green = 0, blue = 0\<rparr> PaintCanvas_new))) =
     Some \<lparr>line_points = [\<lparr>px = 7, py = 9\<rparr>], line_color = \<lparr>red = 255, green = 255, blue = 255\<rparr>,
           line_rainbowMode = False\<rparr> \<and>
   currentLine (OnLeftDown \<lparr>px = 7, py = 9\<rparr> (SetColor \<lparr>red = 255, green = 0, blue = 0\<rparr> PaintCanvas_new)) =
     Some \<lparr>line_points = [\<lparr>px = 7, py = 9\<rparr>], line_color = \<lparr>red = 255, green = 0, blue = 0\<rparr>,
           line_rainbowMode = False\<rparr> \<and>
   currentLine (OnLeftDown \<lparr>px = 7, py = 9\<rparr> (EnableRainbowMode PaintCanvas_new)) =
     Some \<lparr>line_points = [\<lparr>px = 7, py = 9\<rparr>], line_color = \<lparr>red = 0, green = 0, blue = 0\<rparr>,
           line_rainbowMode = True\<rparr> \<and>
   shapes (OnLeftDown \<lparr>px = 7, py = 9\<rparr> (EnableRainbowMode PaintCanvas_new)) = []"
  using
    freehand_pointer_down [where c = "EnableEraserMode (SetColor \<lparr>red = 255, green = 0, blue = 0\<rparr> PaintCanvas_new)"
      and pos = "\<lparr>px = 7, py = 9\<rparr>"]
    freehand_pointer_down [where c = "SetColor \<lparr>red = 255, green = 0, blue = 0\<rparr> PaintCanvas_new"
      and pos = "\<lparr>px = 7, py = 9\<rparr>"]
    freehand_pointer_down [where c = "EnableRainbowMode PaintCanvas_new"
      and pos = "\<lparr>px = 7, py = 9\<rparr>"]
  by (simp add: EnableEraserMode_def EnableRainbowMode_def SetColor_def PaintCanvas_new_def wxBLACK_def)

section \<open>Pointer-move\<close>

text \<open>
  C7. A pointer-move with an empty in-progress slot changes nothing: canvas and
  generator are returned as they were. With a line in progress and the canvas's rainbow
  flag set, the handler first calls \<open>UpdateRainbowColor\<close> on the line and then appends
  the pointer position to the result; with the rainbow flag not set it only appends the
  position. In both cases one redraw is requested.
\<close>

theorem OnMouseMove_effect:
  "(currentLine c = None \<longrightarrow> OnMouseMove rnd ord pos (c, g) = (c, g)) \<and>
   (currentLine c = Some l \<and> rainbowMode c \<longrightarrow>
      OnMouseMove rnd ord pos (c, g) =
        (c\<lparr>currentLine := Some (AddPoint (fst (UpdateRainbowColor rnd ord l g)) pos),
           refreshRequests := refreshRequests c + 1\<rparr>,
         snd (UpdateRainbowColor rnd ord l g))) \<and>
   (currentLine c = Some l \<and> \<not> rainbowMode c \<longrightarrow>
      OnMouseMove rnd ord pos (c, g) =
        (c\<lparr>currentLine := Some (AddPoint l pos),
           refreshRequests := refreshRequests c + 1\<rparr>, g))"
  by (simp add: OnMouseMove_def Refresh_def split: prod.splits)

text \<open>
  A move on an idle canvas; a move during a rainbow stroke, with the counting generator
  at 300; a move during a plain black stroke.
\<close>

theorem OnMouseMove_effect_witness:
  "OnMouseMove count_rnd Ord_012 \<lparr>px = 7, py = 9\<rparr> (EnableRainbowMode PaintCanvas_new, 300) =
     (EnableRainbowMode PaintCanvas_new, 300) \<and>
   currentLine (fst (OnMouseMove count_rnd Ord_012 \<lparr>px = 7, py = 9\<rparr>
      (OnLeftDown \<lparr>px = 1, py = 2\<rparr> (EnableRainbowMode PaintCanvas_new), 300))) =
     Some \<lparr>line_points = [\<lparr>px = 1, py = 2\<rparr>, \<lparr>px = 7, py = 9\<rparr>],
           line_color = \<lparr>red = 44, green = 45, blue = 46\<rparr>, line_rainbowMode = True\<rparr> \<and>
   currentLine (fst (OnMouseMove count_rnd Ord_012 \<lparr>px = 7, py = 9\<rparr>
      (OnLeftDown \<lparr>px = 1, py = 2\<rparr> PaintCanvas_new, 300))) =
     Some \<lparr>line_points = [\<lparr>px = 1, py = 2\<rparr>, \<lparr>px = 7, py = 9\<rparr>],
           line_color = \<lparr>red = 0, green = 0, blue = 0\<rparr>, line_rainbowMode = False\<rparr>"
  using
    OnMouseMove_effect [where c = "EnableRainbowMode PaintCanvas_new" and rnd = count_rnd
      and ord = Ord_012 and pos = "\<lparr>px = 7, py = 9\<rparr>" and g = 300
      and l = "\<lparr>line_points = [], line_color = wxBLACK, line_rainbowMode = True\<rparr>"]
    OnMouseMove_effect [where c = "OnLeftDown \<lparr>px = 1, py = 2\<rparr> (EnableRainbowMode PaintCanvas_new)"
      and rnd = count_rnd
      and ord = Ord_012 and pos = "\<lparr>px = 7, py = 9\<rparr>" and g = 300
      and l = "\<lparr>line_points = [\<lparr>px = 1, py = 2\<rparr>], line_color = wxBLACK, line_rainbowMode = True\<rparr>"]
    OnMouseMove_effect [where c = "OnLeftDown \<lparr>px = 1, py = 2\<rparr> PaintCanvas_new"
      and rnd = count_rnd
      and ord = Ord_012 and pos = "\<lparr>px = 7, py = 9\<rparr>" and g = 300
      and l = "\<lparr>line_points = [\<lparr>px = 1, py = 2\<rparr>], line_color = wxBLACK, line_rainbowMode = False\<rparr>"]
  by (simp add: canvas_defs PaintCanvas_new_def wxBLACK_def FreehandLine_new_def AddPoint_def
      UpdateRainbowColor_def rand3_def count_rnd_def wxColor_rgb_def Let_def)

section \<open>Gestures\<close>

lemma OnMouseMove_shapes:
  "shapes (fst (OnMouseMove rnd ord pos (c, g))) = shapes c"
  by (simp add: OnMouseMove_def Refresh_def split: option.splits prod.splits)

lemma OnMouseMove_slot:
  "(currentLine (fst (OnMouseMove rnd ord pos (c, g))) = None) = (currentLine c = None)"
  by (simp add: OnMouseMove_def Refresh_def split: option.splits prod.splits)

lemma run_motions:
  "shapes (fst (run_events rnd ord (map Motion ms) (c, g))) = shapes c \<and>
   ((currentLine (fst (run_events rnd ord (map Motion ms) (c, g))) = None) = (currentLine c = None))"
proof (induction ms arbitrary: c g)
  case Nil
  show ?case by (simp add: run_events_def)
next
  case (Cons m ms)
  obtain c1 g1 where s: "OnMouseMove rnd ord m (c, g) = (c1, g1)"
    by (cases "OnMouseMove rnd ord m (c, g)")
  have a: "shapes c1 = shapes c" using OnMouseMove_shapes [of rnd ord m c g] s by simp
  have b: "(currentLine c1 = None) = (currentLine c = None)"
    using OnMouseMove_slot [of rnd ord m c g] s by simp
  have "run_events rnd ord (map Motion (m # ms)) (c, g) = run_events rnd ord (map Motion ms) (c1, g1)"
    by (simp add: run_events_def s)
  with Cons.IH [of c1 g1] a b show ?case by simp
qed

lemma run_gesture:
  "run_events rnd ord (gesture p ms q) (c, g) =
     (let (c2, g2) = run_events rnd ord (map Motion ms) (OnLeftDown p c, g)
      in (OnLeftUp q c2, g2))"
  by (simp add: gesture_def run_events_def split: prod.splits)

lemma OnLeftUp_slot: "currentLine (OnLeftUp q c) = None"
  by (simp add: OnLeftUp_def Refresh_def split: option.splits)

lemma OnLeftUp_length:
  "length (shapes (OnLeftUp q c)) = length (shapes c) + (if currentLine c = None then 0 else 1)"
  by (simp add: OnLeftUp_def Refresh_def split: option.splits)

lemma OnLeftDown_length:
  "length (shapes (OnLeftDown p c)) = length (shapes c) + (if circleMode c \<or> squareMode c then 1 else 0)"
  by (simp add: OnLeftDown_def Refresh_def Let_def split: option.splits)

lemma OnLeftDown_slot:
  "(currentLine (OnLeftDown p c) = None) = ((circleMode c \<or> squareMode c) \<and> currentLine c = None)"
  by (simp add: OnLeftDown_def Refresh_def Let_def split: option.splits)

text \<open>
  The size of the document after a gesture: two shapes more when a stamp mode is active
  and a line is already in progress (the stamp, and the line that pointer-up commits),
  one shape more in every other case.
\<close>

lemma gesture_length:
  "length (shapes (fst (run_events rnd ord (gesture p ms q) (c, g)))) =
     length (shapes c) + (if (circleMode c \<or> squareMode c) \<and> currentLine c \<noteq> None then 2 else 1)"
proof -
  obtain c2 g2 where s: "run_events rnd ord (map Motion ms) (OnLeftDown p c, g) = (c2, g2)"
    by (cases "run_events rnd ord (map Motion ms) (OnLeftDown p c, g)")
  have a: "shapes c2 = shapes (OnLeftDown p c)"
    and b: "(currentLine c2 = None) = (currentLine (OnLeftDown p c) = None)"
    using run_motions [of rnd ord ms "OnLeftDown p c" g] s by simp_all
  have "fst (run_events rnd ord (gesture p ms q) (c, g)) = OnLeftUp q c2"
    by (simp add: run_gesture s)
  then show ?thesis
    using a b by (simp add: OnLeftUp_length OnLeftDown_length OnLeftDown_slot)
qed

text \<open>
  C2, amended. A gesture that starts with the in-progress slot empty, or with no stamp
  mode active, leaves the document exactly one shape longer than before. After the
  pointer-up of any gesture the in-progress slot is empty. A pointer-up that arrives
  while the slot is empty leaves the document unchanged and the slot empty.
\<close>

theorem gesture_commits_one_shape:
  "(currentLine c = None \<or> (\<not> circleMode c \<and> \<not> squareMode c) \<longrightarrow>
      length (shapes (fst (run_events rnd ord (gesture p ms q) (c, g)))) = length (shapes c) + 1) \<and>
   currentLine (fst (run_events rnd ord (gesture p ms q) (c, g))) = None \<and>
   (currentLine c = None \<longrightarrow> shapes (OnLeftUp q c) = shapes c \<and> currentLine (OnLeftUp q c) = None)"
proof -
  have "currentLine (fst (run_events rnd ord (gesture p ms q) (c, g))) = None"
    by (simp add: run_gesture OnLeftUp_slot split: prod.splits)
  moreover have "currentLine c = None \<longrightarrow> shapes (OnLeftUp q c) = shapes c"
    by (simp add: OnLeftUp_def Refresh_def)
  ultimately show ?thesis
    by (auto simp add: gesture_length OnLeftUp_slot)
qed

text \<open>
  A rainbow stroke with one move and a square stamp, each on a fresh canvas; a pointer-up
  on an idle canvas.
\<close>

theorem gesture_commits_one_shape_witness:
  "length (shapes (fst (run_events count_rnd Ord_012
       (gesture \<lparr>px = 1, py = 2\<rparr> [\<lparr>px = 3, py = 4\<rparr>] \<lparr>px = 5, py = 6\<rparr>)
       (EnableRainbowMode PaintCanvas_new, 0)))) = 1 \<and>
   length (shapes (fst (run_events count_rnd Ord_012
       (gesture \<lparr>px = 1, py = 2\<rparr> [\<lparr>px = 3, py = 4\<rparr>] \<lparr>px = 5, py = 6\<rparr>)
       (EnableSquareMode PaintCanvas_new, 0)))) = 1 \<and>
   shapes (OnLeftUp \<lparr>px = 5, py = 6\<rparr> (EnableRainbowMode PaintCanvas_new)) = []"
  using gesture_commits_one_shape [where c = "EnableRainbowMode PaintCanvas_new"
      and rnd = count_rnd and ord = Ord_012 and p = "\<lparr>px = 1, py = 2\<rparr>"
      and ms = "[\<lparr>px = 3, py = 4\<rparr>]" and q = "\<lparr>px = 5, py = 6\<rparr>" and g = 0]
    gesture_commits_one_shape [where c = "EnableSquareMode PaintCanvas_new"
      and rnd = count_rnd and ord = Ord_012 and p = "\<lparr>px = 1, py = 2\<rparr>"
      and ms = "[\<lparr>px = 3, py = 4\<rparr>]" and q = "\<lparr>px = 5, py = 6\<rparr>" and g = 0]
  by (simp add: PaintCanvas_new_def EnableRainbowMode_def EnableSquareMode_def)

text \<open>
  The claim as stated, for every gesture, fails where a stroke is in progress and a stamp
  mode is active: on a fresh canvas, a pointer-down at (10, 20) whose pointer-up never
  reaches the canvas, then \<open>EnableCircleMode\<close>, then the gesture pointer-down and
  pointer-up at (30, 40). The gesture adds the circle and the stale line, two shapes.
\<close>

theorem gesture_in_stamp_mode_counterexample:
  "shapes (EnableCircleMode (OnLeftDown \<lparr>px = 10, py = 20\<rparr> PaintCanvas_new)) = [] \<and>
   length (shapes (fst (run_events count_rnd Ord_012
       (gesture \<lparr>px = 30, py = 40\<rparr> [] \<lparr>px = 30, py = 40\<rparr>)
       (EnableCircleMode (OnLeftDown \<lparr>px = 10, py = 20\<rparr> PaintCanvas_new), 0)))) = 2 \<and>
   length (shapes (fst (run_events count_rnd Ord_012
       (gesture \<lparr>px = 30, py = 40\<rparr> [] \<lparr>px = 30, py = 40\<rparr>)
       (EnableCircleMode (OnLeftDown \<lparr>px = 10, py = 20\<rparr> PaintCanvas_new), 0))))
   \<noteq> length (shapes (EnableCircleMode (OnLeftDown \<lparr>px = 10, py = 20\<rparr> PaintCanvas_new))) + 1"
  by (simp add: gesture_def run_events_def canvas_defs PaintCanvas_new_def Let_def
      FreehandLine_new_def AddPoint_def Circle_new_def)

section \<open>Painting\<close>

lemma dispatch_shapes_prefix:
  "prefix (shapes c) (shapes (fst (dispatch rnd ord e (c, g))))"
proof (cases e)
  case (Motion pos)
  then show ?thesis by (simp add: OnMouseMove_shapes)
qed (simp_all add: OnLeftDown_def OnLeftUp_def SetColor_def EnableRainbowMode_def
      EnableEraserMode_def EnableCircleMode_def EnableSquareMode_def Refresh_def Let_def
      split: option.splits)

lemma run_events_shapes_prefix:
  "prefix (shapes c) (shapes (fst (run_events rnd ord es (c, g))))"
proof (induction es arbitrary: c g)
  case Nil
  show ?case by (simp add: run_events_def)
next
  case (Cons e es)
  obtain c1 g1 where s: "dispatch rnd ord e (c, g) = (c1, g1)"
    by (cases "dispatch rnd ord e (c, g)")
  have "prefix (shapes c) (shapes c1)"
    using dispatch_shapes_prefix [of c rnd ord e g] s by simp
  moreover have "prefix (shapes c1) (shapes (fst (run_events rnd ord es (c1, g1))))"
    by (rule Cons.IH)
  moreover have "run_events rnd ord (e # es) (c, g) = run_events rnd ord es (c1, g1)"
    by (simp add: run_events_def s)
  ultimately show ?case
    using prefix_order.trans by fastforce
qed

lemma prefix_concat_map:
  "prefix xs ys \<Longrightarrow> prefix (concat (map f xs)) (concat (map f ys))"
  by (auto simp add: prefix_def)

text \<open>
  C6. \<open>OnPaint\<close> issues the draw calls of the committed shapes in the order of the
  document, then those of the in-progress line if there is one (then those of the circle
  and square slots, which are empty whenever a handler has returned). Whatever events
  follow, pointer events or mode and colour calls, the draw calls of the shapes committed
  so far stay the first calls of every later repaint, in the same order; and a mode or
  colour call alone leaves the repaint as it was.
\<close>

theorem OnPaint_insertion_order:
  "OnPaint c =
     concat (map Shape_Draw (shapes c)) @
     (case currentLine c of None \<Rightarrow> [] | Some l \<Rightarrow> FreehandLine_Draw l) @
     (case currentCircle c of None \<Rightarrow> [] | Some s \<Rightarrow> Circle_Draw s) @
     (case currentSquare c of None \<Rightarrow> [] | Some s \<Rightarrow> Square_Draw s) \<and>
   prefix (concat (map Shape_Draw (shapes c))) (OnPaint (fst (run_events rnd ord es (c, g)))) \<and>
   OnPaint (SetColor col c) = OnPaint c \<and>
   OnPaint (EnableRainbowMode c) = OnPaint c \<and>
   OnPaint (EnableEraserMode c) = OnPaint c \<and>
   OnPaint (EnableCircleMode c) = OnPaint c \<and>
   OnPaint (EnableSquareMode c) = OnPaint c"
proof -
  have "prefix (concat (map Shape_Draw (shapes c)))
          (concat (map Shape_Draw (shapes (fst (run_events rnd ord es (c, g))))))"
    by (rule prefix_concat_map) (rule run_events_shapes_prefix)
  then have "prefix (concat (map Shape_Draw (shapes c))) (OnPaint (fst (run_events rnd ord es (c, g))))"
    unfolding OnPaint_def by (rule prefix_prefix)
  then show ?thesis
    by (simp add: OnPaint_def canvas_defs)
qed

section \<open>Lines that are not rainbow lines\<close>

lemma dispatch_keeps_plain_line:
  assumes "currentLine c = Some l" and "\<not> line_rainbowMode l" and "\<not> is_button e"
  shows "dispatch rnd ord e (c, g) = (c', g') \<Longrightarrow>
           currentLine c' = Some (l\<lparr>line_points := line_points l @ motion_positions [e]\<rparr>) \<and>
           g' = g \<and> shapes c' = shapes c"
  using assms
  by (cases e)
     (auto simp add: canvas_defs UpdateRainbowColor_def AddPoint_def split: if_splits prod.splits)

lemma run_events_keeps_plain_line:
  assumes "currentLine c = Some l" and "\<not> line_rainbowMode l" and "\<forall>e\<in>set es. \<not> is_button e"
  shows "currentLine (fst (run_events rnd ord es (c, g))) =
           Some (l\<lparr>line_points := line_points l @ motion_positions es\<rparr>) \<and>
         snd (run_events rnd ord es (c, g)) = g \<and>
         shapes (fst (run_events rnd ord es (c, g))) = shapes c"
  using assms
proof (induction es arbitrary: c l g)
  case Nil
  then show ?case by (simp add: run_events_def)
next
  case (Cons e es)
  obtain c1 g1 where s: "dispatch rnd ord e (c, g) = (c1, g1)"
    by (cases "dispatch rnd ord e (c, g)")
  let ?l1 = "l\<lparr>line_points := line_points l @ motion_positions [e]\<rparr>"
  have e: "\<not> is_button e" using Cons.prems by simp
  have step: "currentLine c1 = Some ?l1 \<and> g1 = g \<and> shapes c1 = shapes c"
    using dispatch_keeps_plain_line [OF Cons.prems(1) Cons.prems(2) e s] .
  have rest: "\<forall>e\<in>set es. \<not> is_button e" using Cons.prems by simp
  have flag: "\<not> line_rainbowMode ?l1" using Cons.prems by simp
  have run: "run_events rnd ord (e # es) (c, g) = run_events rnd ord es (c1, g1)"
    by (simp add: run_events_def s)
  have pos: "motion_positions (e # es) = motion_positions [e] @ motion_positions es"
    by (cases e) simp_all
  from Cons.IH [of c1 ?l1 g1] step flag rest
  show ?case by (simp add: run pos)
qed

text \<open>
  C9. A line in progress whose own rainbow flag is false keeps its colour and its flag
  through every sequence of pointer-moves and mode or colour calls, also when the
  canvas's rainbow mode is switched on during the stroke: only the positions of the moves
  are appended to it, and the pointer-up that follows commits it to the document in that
  same colour. Every eraser stroke is such a line: pointer-down with the eraser flag set
  (and no stamp flag) creates a white line whose rainbow flag is false.
\<close>

theorem plain_line_keeps_color:
  "(currentLine c = Some l \<and> \<not> line_rainbowMode l \<and> (\<forall>e\<in>set es. \<not> is_button e) \<longrightarrow>
      currentLine (fst (run_events rnd ord es (c, g))) =
        Some \<lparr>line_points = line_points l @ motion_positions es, line_color = line_color l,
              line_rainbowMode = False\<rparr> \<and>
      shapes (fst (run_events rnd ord (es @ [LeftUp q]) (c, g))) =
        shapes c @ [LineShape \<lparr>line_points = line_points l @ motion_positions es @ [q],
                               line_color = line_color l, line_rainbowMode = False\<rparr>]) \<and>
   (eraserMode d \<and> \<not> circleMode d \<and> \<not> squareMode d \<longrightarrow>
      currentLine (OnLeftDown p d) =
        Some \<lparr>line_points = [p], line_color = \<lparr>red = 255, green = 255, blue = 255\<rparr>,
              line_rainbowMode = False\<rparr>)"
proof -
  have a: "currentLine (fst (run_events rnd ord es (c, g))) =
        Some \<lparr>line_points = line_points l @ motion_positions es, line_color = line_color l,
              line_rainbowMode = False\<rparr> \<and>
      shapes (fst (run_events rnd ord (es @ [LeftUp q]) (c, g))) =
        shapes c @ [LineShape \<lparr>line_points = line_points l @ motion_positions es @ [q],
                               line_color = line_color l, line_rainbowMode = False\<rparr>]"
    if h: "currentLine c = Some l" "\<not> line_rainbowMode l" "\<forall>e\<in>set es. \<not> is_button e"
  proof -
    obtain c1 g1 where s: "run_events rnd ord es (c, g) = (c1, g1)"
      by (cases "run_events rnd ord es (c, g)")
    have k: "currentLine c1 = Some (l\<lparr>line_points := line_points l @ motion_positions es\<rparr>)"
      and sh: "shapes c1 = shapes c"
      using run_events_keeps_plain_line [OF h, of rnd ord g] s by simp_all
    have eq: "l\<lparr>line_points := line_points l @ motion_positions es\<rparr> =
          \<lparr>line_points = line_points l @ motion_positions es, line_color = line_color l,
              line_rainbowMode = False\<rparr>"
      using h(2) by simp
    have "run_events rnd ord (es @ [LeftUp q]) (c, g) = (OnLeftUp q c1, g1)"
      by (simp add: run_events_def s [unfolded run_events_def])
    then show ?thesis
      using k sh eq by (simp add: s OnLeftUp_def Refresh_def AddPoint_def)
  qed
  have b: "currentLine (OnLeftDown p d) =
        Some \<lparr>line_points = [p], line_color = \<lparr>red = 255, green = 255, blue = 255\<rparr>,
              line_rainbowMode = False\<rparr>"
    if "eraserMode d" "\<not> circleMode d" "\<not> squareMode d"
    using that
    by (simp add: OnLeftDown_def Refresh_def Let_def FreehandLine_new_def AddPoint_def wxWHITE_def)
  from a b show ?thesis by blast
qed


text \<open>
  An eraser stroke on a fresh canvas, with rainbow mode switched on between two moves,
  stays white and is committed white.
\<close>

theorem plain_line_keeps_color_witness:
  "currentLine (fst (run_events count_rnd Ord_012
      [Motion \<lparr>px = 3, py = 4\<rparr>, CallEnableRainbowMode, Motion \<lparr>px = 5, py = 6\<rparr>]
      (OnLeftDown \<lparr>px = 1, py = 2\<rparr> (EnableEraserMode PaintCanvas_new), 300))) =
     Some \<lparr>line_points = [\<lparr>px = 1, py = 2\<rparr>, \<lparr>px = 3, py = 4\<rparr>, \<lparr>px = 5, py = 6\<rparr>],
           line_color = \<lparr>red = 255, green = 255, blue = 255\<rparr>, line_rainbowMode = False\<rparr> \<and>
   shapes (fst (run_events count_rnd Ord_012
      ([Motion \<lparr>px = 3, py = 4\<rparr>, CallEnableRainbowMode, Motion \<lparr>px = 5, py = 6\<rparr>] @
       [LeftUp \<lparr>px = 7, py = 8\<rparr>])
      (OnLeftDown \<lparr>px = 1, py = 2\<rparr> (EnableEraserMode PaintCanvas_new), 300))) =
     [LineShape \<lparr>line_points = [\<lparr>px = 1, py = 2\<rparr>, \<lparr>px = 3, py = 4\<rparr>, \<lparr>px = 5, py = 6\<rparr>,
                                \<lparr>px = 7, py = 8\<rparr>],
                 line_color = \<lparr>red = 255, green = 255, blue = 255\<rparr>, line_rainbowMode = False\<rparr>]"
  using
    plain_line_keeps_color [where c = "OnLeftDown \<lparr>px = 1, py = 2\<rparr> (EnableEraserMode PaintCanvas_new)"
      and d = "EnableEraserMode PaintCanvas_new" and p = "\<lparr>px = 1, py = 2\<rparr>"
      and l = "\<lparr>line_points = [\<lparr>px = 1, py = 2\<rparr>],
           line_color = \<lparr>red = 255, green = 255, blue = 255\<rparr>, line_rainbowMode = False\<rparr>"
      and es = "[Motion \<lparr>px = 3, py = 4\<rparr>, CallEnableRainbowMode, Motion \<lparr>px = 5, py = 6\<rparr>]"
      and rnd = count_rnd and ord = Ord_012 and g = 300 and q = "\<lparr>px = 7, py = 8\<rparr>"]
  by (simp add: EnableEraserMode_def PaintCanvas_new_def OnLeftDown_def Refresh_def
      FreehandLine_new_def AddPoint_def wxWHITE_def)

end
